theory Spec2Isabelle
  imports Main "HOL-Library.Word"
begin

section \<open>The per-table deleter of spanner-truncate (src/truncate/deleter.go)\<close>

text \<open>
  The deleter is a five-state machine with two counters. Its methods talk to a Cloud
  Spanner client, which is not part of the repository: the client is modelled as an
  explicit value that records every statement it is handed and answers through two
  response functions, so that each theorem below holds for every behaviour of the
  database. The \<open>context.Context\<close> argument only travels to the client and is
  absorbed into those response functions.
\<close>

subsection \<open>Data\<close>

text \<open>Go's \<open>int64\<close> and \<open>uint64\<close>; \<open>time.Duration\<close> is an \<open>int64\<close> of nanoseconds.\<close>

type_synonym int64 = "64 word"
type_synonym uint64 = "64 word"
type_synonym Duration = "64 word"

text \<open>\<open>type status int\<close> with its five constants, in the order of the \<open>iota\<close> block.\<close>

datatype status =
    statusAnalyzing
  | statusWaiting
  | statusDeleting
  | statusCascadeDeleting
  | statusCompleted

text \<open>\<open>const thirtySeconds = 30 * time.Second\<close>, in nanoseconds.\<close>

definition thirtySeconds :: Duration where
  "thirtySeconds = 30 * 1000000000"

text \<open>
  \<open>type deleter struct\<close>. The \<open>client\<close> field is a pointer that no method reassigns;
  the client it points to is passed to each method and returned by it.
\<close>

record deleter =
  tableName :: string
  whereClause :: string
  status :: status
  totalRows :: uint64
  remainedRows :: uint64

subsection \<open>The Spanner client\<close>

text \<open>A non-nil Go \<open>error\<close>; \<open>nil\<close> is \<open>None\<close> of \<open>error option\<close>.\<close>

datatype error = Error string

text \<open>The requests a deleter sends: a partitioned update or a single-use stale query.\<close>

datatype call = PartitionedUpdateCall string | QueryCall string

text \<open>
  A result row, seen through \<open>ColumnByName\<close> into an \<open>int64\<close> variable: for a column
  name, either the decoded value or the decoding error.
\<close>

type_synonym row = "string \<Rightarrow> error + int64"

text \<open>One answer of \<open>RowIterator.Next\<close>; the end of the list is \<open>iterator.Done\<close>.\<close>

datatype fetch = Fetched row | FetchFailed error

record client =
  calls :: "call list"
  updateResponse :: "call list \<Rightarrow> string \<Rightarrow> int64 \<times> error option"
  queryResponse :: "call list \<Rightarrow> string \<Rightarrow> fetch list"

text \<open>\<open>client.PartitionedUpdate(ctx, stmt)\<close>: the row count and the error.\<close>

definition PartitionedUpdate :: "client \<Rightarrow> string \<Rightarrow> (int64 \<times> error option) \<times> client" where
  "PartitionedUpdate cl stmt =
     (updateResponse cl (calls cl) stmt, cl\<lparr>calls := calls cl @ [PartitionedUpdateCall stmt]\<rparr>)"

text \<open>\<open>client.Single().WithTimestampBound(...).Query(ctx, stmt)\<close>: the row iterator.\<close>

definition Query :: "client \<Rightarrow> string \<Rightarrow> fetch list \<times> client" where
  "Query cl stmt =
     (queryResponse cl (calls cl) stmt, cl\<lparr>calls := calls cl @ [QueryCall stmt]\<rparr>)"

text \<open>
  \<open>RowIterator.Do(f)\<close>: \<open>f\<close> runs on each row in turn; the first error, of \<open>f\<close> or of
  fetching, ends the iteration and is returned. The callback's captured variable is
  threaded through as \<open>s\<close>.
\<close>

fun Do :: "fetch list \<Rightarrow> (row \<Rightarrow> 's \<Rightarrow> error option \<times> 's) \<Rightarrow> 's \<Rightarrow> error option \<times> 's" where
  "Do [] f s = (None, s)"
| "Do (FetchFailed e # rest) f s = (Some e, s)"
| "Do (Fetched r # rest) f s =
     (case f r s of
        (Some e, s') \<Rightarrow> (Some e, s')
      | (None, s') \<Rightarrow> Do rest f s')"

text \<open>\<open>r.ColumnByName(name, &count)\<close>: stores the value, or reports the error.\<close>

definition ColumnByName :: "row \<Rightarrow> string \<Rightarrow> int64 \<Rightarrow> error option \<times> int64" where
  "ColumnByName r name count =
     (case r name of Inl e \<Rightarrow> (Some e, count) | Inr v \<Rightarrow> (None, v))"

subsection \<open>The methods\<close>

text \<open>\<open>func (d *deleter) deleteRows(ctx) error\<close>.\<close>

definition deleteRows :: "client \<Rightarrow> deleter \<Rightarrow> error option \<times> deleter \<times> client" where
  "deleteRows cl d =
     (let d = d\<lparr>status := statusDeleting\<rparr>;
          rawStatement = ''DELETE FROM `'' @ tableName d @ ''` WHERE '' @ whereClause d;
          stmt = rawStatement;
          ((_, err), cl) = PartitionedUpdate cl stmt
      in (err, d, cl))"

text \<open>\<open>func (d *deleter) parentDeletionStarted()\<close>.\<close>

definition parentDeletionStarted :: "deleter \<Rightarrow> deleter" where
  "parentDeletionStarted d =
     (if status d \<noteq> statusCompleted then d\<lparr>status := statusCascadeDeleting\<rparr> else d)"

text \<open>
  The first half of \<open>updateRowCount\<close>: the \<open>SELECT COUNT(*)\<close> statement, the local
  \<open>count\<close> starting at zero, and the iteration that stores the \<open>count\<close> column into it.
\<close>

definition countQuery :: "client \<Rightarrow> deleter \<Rightarrow> (error option \<times> int64) \<times> client" where
  "countQuery cl d =
     (let stmt = ''SELECT COUNT(*) as count FROM `'' @ tableName d @ ''` WHERE '' @ whereClause d;
          count = 0;
          (txn, cl) = Query cl stmt
      in (Do txn (\<lambda>r count. ColumnByName r ''count'' count) count, cl))"

text \<open>\<open>func (d *deleter) updateRowCount(ctx) error\<close>; \<open>uint64(count)\<close> is \<open>ucast\<close>.\<close>

definition updateRowCount :: "client \<Rightarrow> deleter \<Rightarrow> error option \<times> deleter \<times> client" where
  "updateRowCount cl d =
     (case countQuery cl d of
        ((Some err, _), cl) \<Rightarrow> (Some err, d, cl)
      | ((None, count), cl) \<Rightarrow>
          (let d = (if totalRows d = 0 then d\<lparr>totalRows := ucast count\<rparr> else d);
               d = d\<lparr>remainedRows := ucast count\<rparr>;
               d = (if count = 0 then d\<lparr>status := statusCompleted\<rparr>
                    else if status d = statusAnalyzing then d\<lparr>status := statusWaiting\<rparr>
                    else d)
           in (None, d, cl)))"

text \<open>
  The loop of \<open>startRowCountUpdater\<close>, run in sequence. The list holds, for each
  iteration that gets to run, what \<open>time.Since(begin)\<close> returns in it; when the list is
  used up the loop still checks the state once more, and if it is not completed the
  goroutine is left running. The result is the deleter and the client at that point,
  the durations handed to \<open>time.Sleep\<close> in order, and whether the goroutine has
  returned. Writes by other goroutines between two iterations are not part of the run.
\<close>

fun startRowCountUpdater ::
  "Duration list \<Rightarrow> client \<Rightarrow> deleter \<Rightarrow> (deleter \<times> client) \<times> Duration list \<times> bool" where
  "startRowCountUpdater [] cl d = ((d, cl), [], status d = statusCompleted)"
| "startRowCountUpdater (elapsed # later) cl d =
     (if status d = statusCompleted then ((d, cl), [], True)
      else
        (let (err, d, cl) = updateRowCount cl d;
             sleepDuration = elapsed * 10;
             sleepDuration = (if thirtySeconds <s sleepDuration then thirtySeconds else sleepDuration);
             (final, sleeps, returned) = startRowCountUpdater later cl d
         in (final, sleepDuration # sleeps, returned)))"

subsection \<open>Runs and example values\<close>

text \<open>\<open>n\<close> calls of \<open>updateRowCount\<close> in a row, each error dropped as the loop drops it.\<close>

fun sampleTimes :: "nat \<Rightarrow> client \<Rightarrow> deleter \<Rightarrow> deleter \<times> client" where
  "sampleTimes 0 cl d = (d, cl)"
| "sampleTimes (Suc n) cl d =
     (case updateRowCount cl d of (err, d', cl') \<Rightarrow> sampleTimes n cl' d')"

text \<open>
  What the sampler sees on a run of \<open>startRowCountUpdater\<close>: for each iteration that
  passes the check of the state, the outcome of the count query that its
  \<open>updateRowCount\<close> makes, the error or nil with the value of \<open>count\<close>, in order.
\<close>

fun samplerObservations :: "Duration list \<Rightarrow> client \<Rightarrow> deleter \<Rightarrow> (error option \<times> int64) list" where
  "samplerObservations [] cl d = []"
| "samplerObservations (elapsed # later) cl d =
     (if status d = statusCompleted then []
      else fst (countQuery cl d) #
        (case updateRowCount cl d of (err, d', cl') \<Rightarrow> samplerObservations later cl' d'))"

text \<open>A deleter as Go's zero values leave it: analyzing, both counters zero.\<close>

definition newDeleter :: "string \<Rightarrow> string \<Rightarrow> deleter" where
  "newDeleter t w =
     \<lparr>tableName = t, whereClause = w, status = statusAnalyzing, totalRows = 0, remainedRows = 0\<rparr>"

text \<open>A result row whose only column is \<open>count\<close>.\<close>

definition countRow :: "int64 \<Rightarrow> row" where
  "countRow n = (\<lambda>name. if name = ''count'' then Inr n else Inl (Error ''column not found''))"

text \<open>
  A database that answers its k-th request, when that is a query, with the k-th count of
  a script (and fails once the script is used up), and accepts every partitioned update.
\<close>

definition replayClient :: "int64 list \<Rightarrow> client" where
  "replayClient counts =
     \<lparr>calls = [],
      updateResponse = (\<lambda>history stmt. (0, None)),
      queryResponse = (\<lambda>history stmt.
         if length history < length counts then [Fetched (countRow (counts ! length history))]
         else [FetchFailed (Error ''unavailable'')])\<rparr>"

text \<open>A database that fails every request.\<close>

definition failingClient :: client where
  "failingClient =
     \<lparr>calls = [],
      updateResponse = (\<lambda>history stmt. (0, Some (Error ''aborted''))),
      queryResponse = (\<lambda>history stmt. [FetchFailed (Error ''unavailable'')])\<rparr>"

section \<open>Properties\<close>

subsection \<open>Shared facts\<close>

lemma updateRowCount_failed:
  "fst (fst (countQuery cl d)) = Some e \<Longrightarrow>
   updateRowCount cl d = (Some e, d, snd (countQuery cl d))"
  by (cases "countQuery cl d") (auto simp: updateRowCount_def)

lemma updateRowCount_succeeded:
  "fst (countQuery cl d) = (None, c) \<Longrightarrow>
   updateRowCount cl d =
     (None,
      d\<lparr>totalRows := (if totalRows d = 0 then ucast c else totalRows d),
        remainedRows := ucast c,
        status := (if c = 0 then statusCompleted
                   else if status d = statusAnalyzing then statusWaiting else status d)\<rparr>,
      snd (countQuery cl d))"
  by (cases "countQuery cl d") (auto simp: updateRowCount_def)

lemma updateRowCount_cases:
  obtains (failed) e where "fst (fst (countQuery cl d)) = Some e"
  | (succeeded) c where "fst (countQuery cl d) = (None, c)"
  by (cases "countQuery cl d"; cases "fst (fst (countQuery cl d))") auto

lemma updateRowCount_keeps_nonzero_total:
  "totalRows d \<noteq> 0 \<Longrightarrow> totalRows (fst (snd (updateRowCount cl d))) = totalRows d"
  by (cases cl d rule: updateRowCount_cases)
     (simp_all add: updateRowCount_failed updateRowCount_succeeded)

lemma updateRowCount_keeps_completed:
  "status d = statusCompleted \<Longrightarrow> status (fst (snd (updateRowCount cl d))) = statusCompleted"
  by (cases cl d rule: updateRowCount_cases)
     (simp_all add: updateRowCount_failed updateRowCount_succeeded)

lemma parentDeletionStarted_keeps_completed:
  "status d = statusCompleted \<Longrightarrow> parentDeletionStarted d = d"
  by (simp add: parentDeletionStarted_def)

lemma deleteRows_eq:
  "deleteRows cl d =
     (snd (updateResponse cl (calls cl)
             (''DELETE FROM `'' @ tableName d @ ''` WHERE '' @ whereClause d)),
      d\<lparr>status := statusDeleting\<rparr>,
      cl\<lparr>calls := calls cl @
           [PartitionedUpdateCall (''DELETE FROM `'' @ tableName d @ ''` WHERE '' @ whereClause d)]\<rparr>)"
  by (simp add: deleteRows_def PartitionedUpdate_def Let_def split: prod.split)

lemma sint_thirtySeconds: "sint thirtySeconds = 30000000000"
  by (simp add: thirtySeconds_def)

lemma sint_times_ten:
  fixes e :: Duration
  assumes "- (2 ^ 63) \<le> 10 * sint e" and "10 * sint e < 2 ^ 63"
  shows "sint (e * 10) = 10 * sint e"
  using assms by (simp add: sint_word_ariths signed_take_bit_int_eq_self mult.commute)

text \<open>The duration handed to \<open>time.Sleep\<close> in an iteration that measured \<open>elapsed\<close>.\<close>

lemma startRowCountUpdater_sleeps:
  "startRowCountUpdater es cl d = (r, sleeps, returned) \<Longrightarrow> i < length sleeps \<Longrightarrow>
   i < length es \<and>
   sleeps ! i = (if thirtySeconds <s es ! i * 10 then thirtySeconds else es ! i * 10)"
proof (induction es arbitrary: cl d r sleeps returned i)
  case Nil
  then show ?case by simp
next
  case (Cons elapsed later)
  show ?case
  proof (cases "status d = statusCompleted")
    case True
    with Cons.prems show ?thesis by simp
  next
    case False
    obtain err d' cl' where step: "updateRowCount cl d = (err, d', cl')"
      by (cases "updateRowCount cl d") auto
    obtain r' sleeps' returned' where
      rest: "startRowCountUpdater later cl' d' = (r', sleeps', returned')"
      by (cases "startRowCountUpdater later cl' d'") auto
    from Cons.prems(1) False step rest
    have sleeps: "sleeps =
        (if thirtySeconds <s elapsed * 10 then thirtySeconds else elapsed * 10) # sleeps'"
      by (auto simp: Let_def)
    show ?thesis
    proof (cases i)
      case 0
      with sleeps show ?thesis by simp
    next
      case (Suc j)
      with Cons.prems(2) sleeps have "j < length sleeps'" by simp
      from Cons.IH [OF rest this] Suc sleeps show ?thesis by simp
    qed
  qed
qed

text \<open>
  The observations are those of the loop: one for each iteration that ran, which is one
  for each sleep, and the one of iteration \<open>k\<close> is the outcome of the count query in the
  state that the first \<open>k\<close> iterations leave behind.
\<close>

lemma samplerObservations_length:
  "length (samplerObservations es cl d) = length (fst (snd (startRowCountUpdater es cl d)))"
proof (induction es arbitrary: cl d)
  case Nil
  show ?case by simp
next
  case (Cons elapsed later)
  show ?case
  proof (cases "status d = statusCompleted")
    case True
    then show ?thesis by simp
  next
    case False
    obtain err d' cl' where step: "updateRowCount cl d = (err, d', cl')"
      by (cases "updateRowCount cl d") auto
    with False Cons.IH [of cl' d'] show ?thesis
      by (simp add: Let_def split: prod.split)
  qed
qed

lemma samplerObservations_nth:
  "k < length (samplerObservations es cl d) \<Longrightarrow>
   samplerObservations es cl d ! k =
     fst (countQuery (snd (fst (startRowCountUpdater (take k es) cl d)))
                     (fst (fst (startRowCountUpdater (take k es) cl d))))"
proof (induction es arbitrary: cl d k)
  case Nil
  then show ?case by simp
next
  case (Cons elapsed later)
  show ?case
  proof (cases "status d = statusCompleted")
    case True
    with Cons.prems show ?thesis by simp
  next
    case False
    obtain err d' cl' where step: "updateRowCount cl d = (err, d', cl')"
      by (cases "updateRowCount cl d") auto
    show ?thesis
    proof (cases k)
      case 0
      with False show ?thesis by simp
    next
      case (Suc j)
      with Cons.prems False step have "j < length (samplerObservations later cl' d')"
        by simp
      from Cons.IH [OF this] False step Suc show ?thesis
        by (simp add: Let_def split: prod.split)
    qed
  qed
qed


subsection \<open>Claims\<close>

text \<open>
  C1. Claimed: once the state is completed, none of deleteRows, parentDeletionStarted and
  updateRowCount (failed or successful) moves it away from completed. The two lemmas
  \<open>parentDeletionStarted_keeps_completed\<close> and \<open>updateRowCount_keeps_completed\<close> above
  give this for the latter two. deleteRows assigns \<open>statusDeleting\<close> without looking at
  the state: here a first sample of zero rows completes a new deleter, and the
  deleteRows that follows takes it back to deleting.
\<close>

theorem deleteRows_leaves_completed:
  "status (fst (sampleTimes (Suc 0) (replayClient [0]) (newDeleter ''Singers'' ''true'')))
     = statusCompleted \<and>
   status (fst (snd (deleteRows
      (snd (sampleTimes (Suc 0) (replayClient [0]) (newDeleter ''Singers'' ''true'')))
      (fst (sampleTimes (Suc 0) (replayClient [0]) (newDeleter ''Singers'' ''true''))))))
     = statusDeleting"
  by (simp add: deleteRows_eq updateRowCount_def countQuery_def Query_def ColumnByName_def
      countRow_def replayClient_def newDeleter_def)



text \<open>
  C3. A sample that succeeds with a count of zero returns no error and leaves the state
  completed, whatever the state was before.
\<close>

theorem zero_sample_completes:
  "fst (countQuery cl d) = (None, 0) \<Longrightarrow>
   fst (updateRowCount cl d) = None \<and>
   status (fst (snd (updateRowCount cl d))) = statusCompleted"
  by (simp add: updateRowCount_succeeded)

theorem zero_sample_completes_witness:
  "fst (countQuery (replayClient [0]) (newDeleter ''Singers'' ''true'')) = (None, 0) \<and>
   status (newDeleter ''Singers'' ''true'') = statusAnalyzing \<and>
   fst (updateRowCount (replayClient [0]) (newDeleter ''Singers'' ''true'')) = None \<and>
   status (fst (snd (updateRowCount (replayClient [0]) (newDeleter ''Singers'' ''true''))))
     = statusCompleted"
proof -
  have h: "fst (countQuery (replayClient [0]) (newDeleter ''Singers'' ''true'')) = (None, 0)"
    by (simp add: countQuery_def Query_def ColumnByName_def countRow_def replayClient_def)
  have a: "status (newDeleter ''Singers'' ''true'') = statusAnalyzing"
    by (simp add: newDeleter_def)
  from zero_sample_completes [OF h] h a show ?thesis by simp
qed

text \<open>
  C4. parentDeletionStarted leaves the state cascade-deleting exactly when the state was
  not completed; from completed it returns the deleter as it was; and in every case the
  only field that can differ afterwards is the state.
\<close>

theorem parentDeletionStarted_effect:
  "(status (parentDeletionStarted d) = statusCascadeDeleting \<longleftrightarrow> status d \<noteq> statusCompleted) \<and>
   (status d = statusCompleted \<longrightarrow> parentDeletionStarted d = d) \<and>
   parentDeletionStarted d = d\<lparr>status := status (parentDeletionStarted d)\<rparr>"
  by (simp add: parentDeletionStarted_def)

theorem parentDeletionStarted_effect_witness:
  "status ((newDeleter ''Albums'' ''true'')\<lparr>status := statusWaiting, totalRows := 9\<rparr>)
     \<noteq> statusCompleted \<and>
   parentDeletionStarted ((newDeleter ''Albums'' ''true'')\<lparr>status := statusWaiting, totalRows := 9\<rparr>)
     = (newDeleter ''Albums'' ''true'')\<lparr>status := statusCascadeDeleting, totalRows := 9\<rparr> \<and>
   status ((newDeleter ''Albums'' ''true'')\<lparr>status := statusCompleted\<rparr>) = statusCompleted \<and>
   parentDeletionStarted ((newDeleter ''Albums'' ''true'')\<lparr>status := statusCompleted\<rparr>)
     = (newDeleter ''Albums'' ''true'')\<lparr>status := statusCompleted\<rparr>"
proof -
  let ?w = "(newDeleter ''Albums'' ''true'')\<lparr>status := statusWaiting, totalRows := 9\<rparr>"
  let ?c = "(newDeleter ''Albums'' ''true'')\<lparr>status := statusCompleted\<rparr>"
  have hw: "status ?w \<noteq> statusCompleted" by simp
  have hc: "status ?c = statusCompleted" by simp
  from parentDeletionStarted_effect [of ?w] hw
  have "status (parentDeletionStarted ?w) = statusCascadeDeleting"
    and "parentDeletionStarted ?w = ?w\<lparr>status := status (parentDeletionStarted ?w)\<rparr>"
    by blast+
  then have "parentDeletionStarted ?w = ?w\<lparr>status := statusCascadeDeleting\<rparr>" by simp
  moreover from parentDeletionStarted_effect [of ?c] hc
  have "parentDeletionStarted ?c = ?c" by blast
  ultimately show ?thesis using hw hc by simp
qed

text \<open>
  C5. Claimed: each iteration sleeps for ten times the elapsed time when that is at most
  30 seconds and for exactly 30 seconds otherwise. The product is computed in
  \<open>time.Duration\<close>, a 64-bit signed count of nanoseconds, and wraps around: for an elapsed
  time of 922337203685477581 ns (a little over 29 years) ten times the elapsed time is
  far more than 30 seconds, and the duration handed to \<open>time.Sleep\<close> is the negative
  \<open>-9223372036854775806\<close> ns.
\<close>

theorem sleepDuration_wraps:
  "fst (snd (startRowCountUpdater [922337203685477581] (replayClient [1])
      (newDeleter ''Singers'' ''true''))) = [9223372036854775810] \<and>
   sint (9223372036854775810 :: Duration) = - 9223372036854775806 \<and>
   30000000000 < 10 * sint (922337203685477581 :: Duration)"
  by (simp add: updateRowCount_def countQuery_def Query_def ColumnByName_def countRow_def
      replayClient_def newDeleter_def thirtySeconds_def word_sless_alt)

text \<open>
  C5, amended. In every iteration of the sampler the duration handed to \<open>time.Sleep\<close> is
  at most 30 seconds, whatever the elapsed time; and when ten times the elapsed time
  fits into \<open>time.Duration\<close>, it is ten times the elapsed time if that is at most 30
  seconds and exactly 30 seconds otherwise. Durations are read in nanoseconds.
\<close>

theorem sleepDuration_capped:
  assumes "i < length (fst (snd (startRowCountUpdater es cl d)))"
  shows "i < length es \<and>
    sint (fst (snd (startRowCountUpdater es cl d)) ! i) \<le> 30000000000 \<and>
    (- (2 ^ 63) \<le> 10 * sint (es ! i) \<and> 10 * sint (es ! i) < 2 ^ 63 \<longrightarrow>
       sint (fst (snd (startRowCountUpdater es cl d)) ! i) =
         (if 10 * sint (es ! i) \<le> 30000000000 then 10 * sint (es ! i) else 30000000000))"
proof -
  obtain r sleeps returned where run: "startRowCountUpdater es cl d = (r, sleeps, returned)"
    by (cases "startRowCountUpdater es cl d") auto
  with assms have "i < length sleeps" by simp
  from startRowCountUpdater_sleeps [OF run this]
  have len: "i < length es"
    and val: "sleeps ! i = (if thirtySeconds <s es ! i * 10 then thirtySeconds else es ! i * 10)"
    by simp_all
  have bound: "sint (sleeps ! i) \<le> 30000000000"
    unfolding val using sint_thirtySeconds by (simp add: word_sless_alt)
  have exact: "sint (sleeps ! i) =
      (if 10 * sint (es ! i) \<le> 30000000000 then 10 * sint (es ! i) else 30000000000)"
    if "- (2 ^ 63) \<le> 10 * sint (es ! i)" and "10 * sint (es ! i) < 2 ^ 63"
    unfolding val using sint_times_ten [OF that] sint_thirtySeconds
    by (simp add: word_sless_alt)
  from len bound exact run show ?thesis by simp
qed

theorem sleepDuration_capped_witness:
  "Suc 0 < length (fst (snd (startRowCountUpdater [2000000000, 5000000000] (replayClient [7, 7])
      (newDeleter ''Singers'' ''true'')))) \<and>
   - (2 ^ 63) \<le> 10 * sint ([2000000000, 5000000000 :: Duration] ! Suc 0) \<and>
   10 * sint ([2000000000, 5000000000 :: Duration] ! Suc 0) < 2 ^ 63 \<and>
   sint (fst (snd (startRowCountUpdater [2000000000, 5000000000] (replayClient [7, 7])
      (newDeleter ''Singers'' ''true''))) ! Suc 0) = 30000000000"
proof -
  let ?sleeps = "fst (snd (startRowCountUpdater [2000000000, 5000000000] (replayClient [7, 7])
      (newDeleter ''Singers'' ''true'')))"
  have h: "Suc 0 < length ?sleeps"
    by (simp add: updateRowCount_def countQuery_def Query_def ColumnByName_def countRow_def
        replayClient_def newDeleter_def)
  have fits: "- (2 ^ 63) \<le> 10 * sint ([2000000000, 5000000000 :: Duration] ! Suc 0)"
    "10 * sint ([2000000000, 5000000000 :: Duration] ! Suc 0) < 2 ^ 63"
    by simp_all
  from sleepDuration_capped [OF h] fits
  have "sint (?sleeps ! Suc 0) = 30000000000" by simp
  with h fits show ?thesis by blast
qed

text \<open>
  C6. deleteRows leaves the state deleting (so never completed) and every other field as
  it was, hands the client one request, the partitioned update of the statement
  \<open>DELETE FROM `tableName` WHERE whereClause\<close>, and returns the error of that request as
  it is: nil when the update succeeded, the update's error when it failed.
\<close>

theorem deleteRows_effect:
  "fst (deleteRows cl d) =
     snd (updateResponse cl (calls cl)
            (''DELETE FROM `'' @ tableName d @ ''` WHERE '' @ whereClause d)) \<and>
   fst (snd (deleteRows cl d)) = d\<lparr>status := statusDeleting\<rparr> \<and>
   status (fst (snd (deleteRows cl d))) \<noteq> statusCompleted \<and>
   snd (snd (deleteRows cl d)) =
     cl\<lparr>calls := calls cl @
          [PartitionedUpdateCall (''DELETE FROM `'' @ tableName d @ ''` WHERE '' @ whereClause d)]\<rparr>"
  by (simp add: deleteRows_eq)

text \<open>
  C7. When deleteRows returns an error, the state is deleting, the state this call
  entered (cascade-deleting once the parent's notification arrives on top of it),
  nothing else in the deleter has changed, and the one request made was the partitioned
  delete. A second deleteRows on the result returns as well, makes one more request
  with the same statement, and leaves the deleter as the first call did.
\<close>

theorem deleteRows_failed:
  assumes "fst (deleteRows cl d) = Some e"
  shows "(status (fst (snd (deleteRows cl d))) = statusDeleting \<or>
          status (fst (snd (deleteRows cl d))) = statusCascadeDeleting) \<and>
    fst (snd (deleteRows cl d)) = d\<lparr>status := statusDeleting\<rparr> \<and>
    status (parentDeletionStarted (fst (snd (deleteRows cl d)))) = statusCascadeDeleting \<and>
    calls (snd (snd (deleteRows cl d))) = calls cl @
      [PartitionedUpdateCall (''DELETE FROM `'' @ tableName d @ ''` WHERE '' @ whereClause d)] \<and>
    fst (snd (deleteRows (snd (snd (deleteRows cl d))) (fst (snd (deleteRows cl d))))) =
      fst (snd (deleteRows cl d)) \<and>
    calls (snd (snd (deleteRows (snd (snd (deleteRows cl d))) (fst (snd (deleteRows cl d)))))) =
      calls cl @
      [PartitionedUpdateCall (''DELETE FROM `'' @ tableName d @ ''` WHERE '' @ whereClause d),
       PartitionedUpdateCall (''DELETE FROM `'' @ tableName d @ ''` WHERE '' @ whereClause d)]"
  by (simp add: deleteRows_eq parentDeletionStarted_def)

theorem deleteRows_failed_witness:
  "fst (deleteRows failingClient ((newDeleter ''Singers'' ''SingerId > 10'')\<lparr>status := statusWaiting\<rparr>))
     = Some (Error ''aborted'') \<and>
   status (fst (snd (deleteRows failingClient
      ((newDeleter ''Singers'' ''SingerId > 10'')\<lparr>status := statusWaiting\<rparr>)))) = statusDeleting \<and>
   calls (snd (snd (deleteRows
      (snd (snd (deleteRows failingClient
         ((newDeleter ''Singers'' ''SingerId > 10'')\<lparr>status := statusWaiting\<rparr>))))
      (fst (snd (deleteRows failingClient
         ((newDeleter ''Singers'' ''SingerId > 10'')\<lparr>status := statusWaiting\<rparr>))))))) =
     [PartitionedUpdateCall ''DELETE FROM `Singers` WHERE SingerId > 10'',
      PartitionedUpdateCall ''DELETE FROM `Singers` WHERE SingerId > 10'']"
proof -
  let ?d = "(newDeleter ''Singers'' ''SingerId > 10'')\<lparr>status := statusWaiting\<rparr>"
  have h: "fst (deleteRows failingClient ?d) = Some (Error ''aborted'')"
    by (simp add: deleteRows_def PartitionedUpdate_def failingClient_def)
  have c: "calls failingClient = []" by (simp add: failingClient_def)
  have t: "tableName ?d = ''Singers''" "whereClause ?d = ''SingerId > 10''"
    by (simp_all add: newDeleter_def)
  note r = deleteRows_failed [OF h]
  from r have s: "fst (snd (deleteRows failingClient ?d)) = ?d\<lparr>status := statusDeleting\<rparr>"
    by (rule conjunct1 [OF conjunct2])
  have s': "status (fst (snd (deleteRows failingClient ?d))) = statusDeleting"
    by (subst s) simp
  from r have "calls (snd (snd (deleteRows (snd (snd (deleteRows failingClient ?d)))
        (fst (snd (deleteRows failingClient ?d)))))) =
      calls failingClient @
      [PartitionedUpdateCall (''DELETE FROM `'' @ tableName ?d @ ''` WHERE '' @ whereClause ?d),
       PartitionedUpdateCall (''DELETE FROM `'' @ tableName ?d @ ''` WHERE '' @ whereClause ?d)]"
    by (rule conjunct2 [OF conjunct2 [OF conjunct2 [OF conjunct2 [OF conjunct2]]]])
  with c t have k: "calls (snd (snd (deleteRows (snd (snd (deleteRows failingClient ?d)))
        (fst (snd (deleteRows failingClient ?d)))))) =
     [PartitionedUpdateCall ''DELETE FROM `Singers` WHERE SingerId > 10'',
      PartitionedUpdateCall ''DELETE FROM `Singers` WHERE SingerId > 10'']"
    by simp
  show ?thesis by (intro conjI; fact)
qed

text \<open>
  C8. When the count query fails, updateRowCount returns that error and the deleter it
  was given, with status, totalRows, remainedRows and every other field as before; the
  only trace is the request in the client's record. In the sampler loop the error is
  dropped: unless the state is completed, the iteration sleeps and the loop goes on to
  the next iteration with the same deleter.
\<close>

theorem updateRowCount_error_changes_nothing:
  assumes "fst (fst (countQuery cl d)) = Some e"
  shows "fst (updateRowCount cl d) = Some e \<and>
    fst (snd (updateRowCount cl d)) = d \<and>
    (status d \<noteq> statusCompleted \<longrightarrow>
       startRowCountUpdater (elapsed # later) cl d =
         (case startRowCountUpdater later (snd (countQuery cl d)) d of
            (final, sleeps, returned) \<Rightarrow>
              (final,
               (if thirtySeconds <s elapsed * 10 then thirtySeconds else elapsed * 10) # sleeps,
               returned)))"
  by (simp add: updateRowCount_failed [OF assms] Let_def)

theorem updateRowCount_error_changes_nothing_witness:
  "fst (fst (countQuery failingClient ((newDeleter ''Singers'' ''true'')
      \<lparr>status := statusDeleting, totalRows := 100, remainedRows := 40\<rparr>)))
     = Some (Error ''unavailable'') \<and>
   fst (updateRowCount failingClient ((newDeleter ''Singers'' ''true'')
      \<lparr>status := statusDeleting, totalRows := 100, remainedRows := 40\<rparr>))
     = Some (Error ''unavailable'') \<and>
   fst (snd (updateRowCount failingClient ((newDeleter ''Singers'' ''true'')
      \<lparr>status := statusDeleting, totalRows := 100, remainedRows := 40\<rparr>)))
     = (newDeleter ''Singers'' ''true'')
      \<lparr>status := statusDeleting, totalRows := 100, remainedRows := 40\<rparr> \<and>
   status ((newDeleter ''Singers'' ''true'')
      \<lparr>status := statusDeleting, totalRows := 100, remainedRows := 40\<rparr>) \<noteq> statusCompleted \<and>
   fst (fst (startRowCountUpdater [1000000000] failingClient ((newDeleter ''Singers'' ''true'')
      \<lparr>status := statusDeleting, totalRows := 100, remainedRows := 40\<rparr>)))
     = (newDeleter ''Singers'' ''true'')
      \<lparr>status := statusDeleting, totalRows := 100, remainedRows := 40\<rparr> \<and>
   snd (startRowCountUpdater [1000000000] failingClient ((newDeleter ''Singers'' ''true'')
      \<lparr>status := statusDeleting, totalRows := 100, remainedRows := 40\<rparr>))
     = ([10000000000], False)"
proof -
  let ?d = "(newDeleter ''Singers'' ''true'')
      \<lparr>status := statusDeleting, totalRows := 100, remainedRows := 40\<rparr>"
  have h: "fst (fst (countQuery failingClient ?d)) = Some (Error ''unavailable'')"
    by (simp add: countQuery_def Query_def failingClient_def)
  have running: "status ?d \<noteq> statusCompleted" by simp
  note r = updateRowCount_error_changes_nothing [OF h, of 1000000000 "[]"]
  from r have "fst (updateRowCount failingClient ?d) = Some (Error ''unavailable'')"
    and "fst (snd (updateRowCount failingClient ?d)) = ?d"
    by blast+
  moreover from r running
  have "startRowCountUpdater [1000000000] failingClient ?d =
      (case startRowCountUpdater [] (snd (countQuery failingClient ?d)) ?d of
         (final, sleeps, returned) \<Rightarrow>
           (final,
            (if thirtySeconds <s 1000000000 * 10 then thirtySeconds else 1000000000 * 10) # sleeps,
            returned))"
    by blast
  then have "fst (fst (startRowCountUpdater [1000000000] failingClient ?d)) = ?d"
    and "snd (startRowCountUpdater [1000000000] failingClient ?d) = ([10000000000], False)"
    by (simp_all add: thirtySeconds_def word_sless_alt)
  ultimately show ?thesis using h running by (intro conjI)
qed

text \<open>
  C9. A successful sample stores its count in remainedRows, whatever remainedRows and the
  state were before.
\<close>

theorem remainedRows_is_latest_count:
  "fst (countQuery cl d) = (None, c) \<Longrightarrow>
   fst (updateRowCount cl d) = None \<and>
   remainedRows (fst (snd (updateRowCount cl d))) = ucast c"
  by (simp add: updateRowCount_succeeded)

theorem remainedRows_is_latest_count_witness:
  "fst (countQuery (replayClient [12]) ((newDeleter ''Singers'' ''true'')
      \<lparr>status := statusCascadeDeleting, totalRows := 100, remainedRows := 40\<rparr>)) = (None, 12) \<and>
   remainedRows (fst (snd (updateRowCount (replayClient [12]) ((newDeleter ''Singers'' ''true'')
      \<lparr>status := statusCascadeDeleting, totalRows := 100, remainedRows := 40\<rparr>)))) = 12"
proof -
  let ?d = "(newDeleter ''Singers'' ''true'')
      \<lparr>status := statusCascadeDeleting, totalRows := 100, remainedRows := 40\<rparr>"
  have h: "fst (countQuery (replayClient [12]) ?d) = (None, 12)"
    by (simp add: countQuery_def Query_def ColumnByName_def countRow_def replayClient_def)
  from remainedRows_is_latest_count [OF h] h show ?thesis by simp
qed

text \<open>
  C10. A successful sample with a count that is not zero moves the state from analyzing
  to waiting and leaves every other state as it is; it keeps tableName and whereClause,
  keeps a totalRows that was not zero, and changes no field besides status, totalRows
  and remainedRows.
\<close>

theorem nonzero_sample_frame:
  assumes "fst (countQuery cl d) = (None, c)" and "c \<noteq> 0"
  shows "status (fst (snd (updateRowCount cl d))) =
      (if status d = statusAnalyzing then statusWaiting else status d) \<and>
    tableName (fst (snd (updateRowCount cl d))) = tableName d \<and>
    whereClause (fst (snd (updateRowCount cl d))) = whereClause d \<and>
    (totalRows d \<noteq> 0 \<longrightarrow> totalRows (fst (snd (updateRowCount cl d))) = totalRows d) \<and>
    fst (snd (updateRowCount cl d)) =
      d\<lparr>status := status (fst (snd (updateRowCount cl d))),
        totalRows := totalRows (fst (snd (updateRowCount cl d))),
        remainedRows := remainedRows (fst (snd (updateRowCount cl d)))\<rparr>"
  using assms(2) by (simp add: updateRowCount_succeeded [OF assms(1)])

theorem nonzero_sample_frame_witness:
  "fst (countQuery (replayClient [12]) ((newDeleter ''Singers'' ''true'')
      \<lparr>status := statusDeleting, totalRows := 100, remainedRows := 40\<rparr>)) = (None, 12) \<and>
   (12 :: int64) \<noteq> 0 \<and>
   totalRows ((newDeleter ''Singers'' ''true'')
      \<lparr>status := statusDeleting, totalRows := 100, remainedRows := 40\<rparr>) \<noteq> 0 \<and>
   status (fst (snd (updateRowCount (replayClient [12]) ((newDeleter ''Singers'' ''true'')
      \<lparr>status := statusDeleting, totalRows := 100, remainedRows := 40\<rparr>)))) = statusDeleting \<and>
   totalRows (fst (snd (updateRowCount (replayClient [12]) ((newDeleter ''Singers'' ''true'')
      \<lparr>status := statusDeleting, totalRows := 100, remainedRows := 40\<rparr>)))) = 100 \<and>
   fst (countQuery (replayClient [12]) (newDeleter ''Singers'' ''true'')) = (None, 12) \<and>
   status (fst (snd (updateRowCount (replayClient [12]) (newDeleter ''Singers'' ''true''))))
     = statusWaiting"
proof -
  let ?d = "(newDeleter ''Singers'' ''true'')
      \<lparr>status := statusDeleting, totalRows := 100, remainedRows := 40\<rparr>"
  let ?n = "newDeleter ''Singers'' ''true''"
  have h: "fst (countQuery (replayClient [12]) ?d) = (None, 12)"
    by (simp add: countQuery_def Query_def ColumnByName_def countRow_def replayClient_def)
  have h': "fst (countQuery (replayClient [12]) ?n) = (None, 12)"
    by (simp add: countQuery_def Query_def ColumnByName_def countRow_def replayClient_def)
  have nz: "(12 :: int64) \<noteq> 0" by simp
  have sd: "status ?d = statusDeleting" "totalRows ?d = 100" by simp_all
  have tz: "totalRows ?d \<noteq> 0" by simp
  have sn: "status ?n = statusAnalyzing" by (simp add: newDeleter_def)
  from nonzero_sample_frame [OF h nz] sd
  have "status (fst (snd (updateRowCount (replayClient [12]) ?d))) = statusDeleting"
    and "totalRows (fst (snd (updateRowCount (replayClient [12]) ?d))) = 100"
    by simp_all
  moreover from nonzero_sample_frame [OF h' nz] sn
  have "status (fst (snd (updateRowCount (replayClient [12]) ?n))) = statusWaiting"
    by simp
  ultimately show ?thesis using h h' nz tz by (intro conjI)
qed

end
